theory Spec2Isabelle
  imports Main
begin

section \<open>Data model (database.py)\<close>

text \<open>
  The table \<open>users\<close> declared by class \<open>User\<close>: an integer primary key \<open>id\<close>, the
  columns \<open>name\<close>, \<open>email\<close> (declared unique),
      \<open>age\<close> and \<open>created_at\<close> (default: the clock
  at insertion). A row is a record whose fields carry the column names, qualified by the
  table name. Python integers are unbounded,
      so \<open>id\<close> and \<open>age\<close> are of type \<open>int\<close>; what
  the store does with an integer it cannot hold is part of the store below. A timestamp
  is a point of an abstract clock.
\<close>

type_synonym datetime = nat

record User =
  users_id :: int
  users_name :: string
  users_email :: string
  users_age :: int
  users_created_at :: datetime

text \<open>
  The Pydantic models. \<open>UserCreate\<close> adds nothing to \<open>UserBase\<close>; \<open>UserResponse\<close> extends it
  by \<open>id\<close> (here \<open>id_of\<close>,
      since \<open>id\<close> is the identity function of HOL) and \<open>created_at\<close>.
\<close>

record UserBase =
  name :: string
  email :: string
  age :: int

type_synonym UserCreate = UserBase

record UserResponse = UserBase +
  id_of :: int
  created_at :: datetime

text \<open>\<open>UserResponse.model_validate(db_user)\<close> with \<open>from_attributes =
    True\<close>: the
  attributes of the row, read by name.\<close>

definition model_validate :: "User \<Rightarrow> UserResponse" where
  "model_validate u =
     \<lparr>name = users_name u, email = users_email u, age = users_age u,
      id_of = users_id u, created_at = users_created_at u\<rparr>"

section \<open>Errors\<close>

text \<open>
  What a statement sent to the store can raise: \<open>OverflowError\<close> when an integer bound
  to it is outside the 64-bit range of the store, \<open>IntegrityError\<close> when the unique
  constraint on \<open>email\<close> is violated,
      \<open>OperationalError\<close> for every other failure of the
  store. What a request can end with instead of a body: the framework's rejection of a
  request that does not validate, an \<open>HTTPException\<close> raised by a handler,
      or an exception
  that leaves the handler unhandled.
\<close>

datatype exc = OverflowError | IntegrityError | OperationalError

datatype error =
    RequestValidationError
  | HTTPException nat string
  | Unhandled exc

text \<open>The status line the framework answers with: 422 for a request that does not
  validate, the handler's own code for an \<open>HTTPException\<close>, 500 for an unhandled
  exception.\<close>

fun status_code :: "error \<Rightarrow> nat" where
  "status_code RequestValidationError = 422"
| "status_code (HTTPException code d) = code"
| "status_code (Unhandled ex) = 500"

text \<open>The text that goes with it: the detail of an \<open>HTTPException\<close>,
    the fixed text
  for an unhandled exception. (The detail of a request that does not validate is the list
  of its validation errors, which is not represented.)\<close>

fun detail :: "error \<Rightarrow> string option" where
  "detail RequestValidationError = None"
| "detail (HTTPException code d) = Some d"
| "detail (Unhandled ex) = Some ''Internal Server Error''"

section \<open>The store\<close>

text \<open>
  The store is the SQLite database of \<open>SQLALCHEMY_DATABASE_URL\<close>. Its state is the list
  of the rows of \<open>users\<close> in the order of the key, which is the order a query without
  \<open>ORDER BY\<close> scans the table in. Each request runs in a session of its own
      (\<open>get_db\<close>); a
  session that ends without a successful \<open>commit\<close> leaves the table as it was.

  The environment of a request: the clock; which of the statements the handler sends to
  the store fails unexpectedly, if any (they are counted from 0 in the order the handler
  sends them); and the key the engine finds when it has to look for an unused one.
\<close>

record env =
  utcnow :: datetime
  fails_at :: "nat option"
  random_rowid :: "int option"

text \<open>The integers the store holds are those of 64 bits; binding any other integer to
  a statement raises \<open>OverflowError\<close> before the statement runs.\<close>

definition max_int64 :: int where
  "max_int64 = 2 ^ 63 - 1"

definition int64 :: "int \<Rightarrow> bool" where
  "int64 i = (- (2 ^ 63) \<le> i \<and> i \<le> max_int64)"

text \<open>The key of a new row (an integer primary key of SQLite that is not declared
  \<open>AUTOINCREMENT\<close>): one more than the largest key in the table,
      1 in an empty table. When
  the largest key is the greatest integer, the engine looks for an unused positive key at
  random and gives up if it finds none.\<close>

definition next_rowid :: "User list \<Rightarrow> int" where
  "next_rowid t = (if t = [] then 1 else Max (set (map users_id t)) + 1)"

definition new_rowid :: "env \<Rightarrow> User list \<Rightarrow> int option" where
  "new_rowid e t =
     (if next_rowid t \<le> max_int64 then Some (next_rowid t)
      else case random_rowid e of
        None \<Rightarrow> None
      | Some r \<Rightarrow>
          if 1 \<le> r \<and> r \<le> max_int64 \<and> r \<notin> set
              (map users_id t) then Some r else None)"

text \<open>\<open>db.add(db_user); db.commit()\<close>,
    the statement \<open>k\<close> of the handler: the INSERT. It
  is refused when the email is already in the table. The row goes to its place in the
  order of the key.\<close>

definition add_commit ::
    "env \<Rightarrow> nat \<Rightarrow> UserCreate \<Rightarrow> User list \<Rightarrow> exc +
    (User \<times> User list)" where
  "add_commit e k user t =
     (if \<not> int64 (age user) then Inl OverflowError
      else if fails_at e = Some k then Inl OperationalError
      else if email user \<in> set (map users_email t) then Inl IntegrityError
      else case new_rowid e t of
        None \<Rightarrow> Inl OperationalError
      | Some rowid \<Rightarrow>
          let db_user = \<lparr>users_id = rowid, users_name = name user,
                         users_email = email user, users_age = age user,
                         users_created_at = utcnow e\<rparr>
          in Inr (db_user, insort_key users_id db_user t))"

text \<open>\<open>db.refresh(db_user)\<close>,
    the statement \<open>k\<close> of the handler: the row just committed
  is read again. Nothing else has written it, so what is read is what was committed.\<close>

definition refresh :: "env \<Rightarrow> nat \<Rightarrow> User \<Rightarrow> exc + User" where
  "refresh e k db_user = (if fails_at e = Some k then Inl OperationalError else Inr db_user)"

text \<open>\<open>db.query(User).filter(User.id == user_id).first()\<close>,
    the statement \<open>k\<close>.\<close>

definition query_first ::
    "env \<Rightarrow> nat \<Rightarrow> int \<Rightarrow> User list \<Rightarrow> exc + User option" where
  "query_first e k user_id t =
     (if \<not> int64 user_id then Inl OverflowError
      else if fails_at e = Some k then Inl OperationalError
      else Inr (find (\<lambda>u. users_id u = user_id) t))"

text \<open>\<open>db.query(User).offset(skip).limit(limit).all()\<close>,
    the statement \<open>k\<close>, that is
  \<open>SELECT ... FROM users LIMIT limit OFFSET skip\<close>. In SQLite a negative \<open>OFFSET\<close> is
  an offset of 0 and a negative \<open>LIMIT\<close> is no limit.\<close>

definition sql_limit :: "int \<Rightarrow> 'a list \<Rightarrow> 'a list" where
  "sql_limit limit xs = (if limit < 0 then xs else take (nat limit) xs)"

definition sql_offset :: "int \<Rightarrow> 'a list \<Rightarrow> 'a list" where
  "sql_offset skip xs = (if skip < 0 then xs else drop (nat skip) xs)"

definition query_all :: "env \<Rightarrow> nat \<Rightarrow> int \<Rightarrow> int \<Rightarrow> User list \<Rightarrow> exc + User list" where
  "query_all e k skip limit t =
     (if \<not> int64 skip \<or> \<not> int64 limit then Inl OverflowError
      else if fails_at e = Some k then Inl OperationalError
      else Inr (sql_limit limit (sql_offset skip t)))"

text \<open>The three \<open>setattr\<close> on the row fetched, then \<open>db.commit()\<close>,
    the statement \<open>k\<close>: an
  UPDATE of the row with the key of \<open>db_user\<close>, which writes the columns whose value has
  changed. It is refused when it writes an email that is in the table.\<close>

definition setattrs :: "User \<Rightarrow> UserCreate \<Rightarrow> User" where
  "setattrs db_user user =
     db_user\<lparr>users_name := name user, users_email := email user,
         users_age := age user\<rparr>"

definition update_commit ::
    "env \<Rightarrow> nat \<Rightarrow> User \<Rightarrow> UserCreate \<Rightarrow> User list \<Rightarrow> exc + (User \<times> User list)" where
  "update_commit e k db_user user t =
     (if age user \<noteq> users_age db_user \<and> \<not> int64 (age user) then Inl OverflowError
      else if fails_at e = Some k then Inl OperationalError
      else if email user \<noteq> users_email db_user \<and> email user \<in> set
          (map users_email t)
        then Inl IntegrityError
      else Inr (setattrs db_user user,
                map (\<lambda>u. if users_id u = users_id db_user then setattrs u user else u) t))"

text \<open>\<open>db.delete(db_user); db.commit()\<close>,
    the statement \<open>k\<close>: a DELETE of the row with
  the key of \<open>db_user\<close>.\<close>

definition delete_commit ::
    "env \<Rightarrow> nat \<Rightarrow> User \<Rightarrow> User list \<Rightarrow> exc + User list" where
  "delete_commit e k db_user t =
     (if fails_at e = Some k then Inl OperationalError
      else Inr (filter (\<lambda>u. users_id u \<noteq> users_id db_user) t))"

section \<open>Request handlers (main.py)\<close>

text \<open>Each handler takes the environment of the request, its validated arguments and
  the table, and returns its outcome with the table after the request.\<close>

text \<open>\<open>create_user\<close>: the whole body is inside \<open>try\<close>
    (\<open>create_user_try\<close>: what the block
  returns or raises, and the table it leaves),
      and \<open>except Exception\<close> turns whatever was
  raised into the same \<open>HTTPException\<close>.\<close>

definition create_user_try :: "env \<Rightarrow> UserCreate \<Rightarrow> User list \<Rightarrow>
    (exc + UserResponse) \<times> User list" where
  "create_user_try e user t =
     (case add_commit e 0 user t of
        Inl ex \<Rightarrow> (Inl ex, t)
      | Inr (db_user, t') \<Rightarrow>
          (case refresh e 1 db_user of
             Inl ex \<Rightarrow> (Inl ex, t')
           | Inr db_user' \<Rightarrow> (Inr (model_validate db_user'), t')))"

definition create_user :: "env \<Rightarrow> UserCreate \<Rightarrow> User list \<Rightarrow>
    (error + UserResponse) \<times> User list" where
  "create_user e user t =
     (case create_user_try e user t of
        (Inl ex, t') \<Rightarrow> (Inl (HTTPException 400 ''Failed to create user''), t')
      | (Inr response, t') \<Rightarrow> (Inr response, t'))"

text \<open>The other handlers have no \<open>try\<close>: an exception of the store leaves the handler.\<close>

definition get_users :: "env \<Rightarrow> int \<Rightarrow> int \<Rightarrow> User list \<Rightarrow> (error + UserResponse list) \<times> User list" where
  "get_users e skip limit t =
     (case query_all e 0 skip limit t of
        Inl ex \<Rightarrow> (Inl (Unhandled ex), t)
      | Inr users \<Rightarrow> (Inr (map model_validate users), t))"

definition get_user :: "env \<Rightarrow> int \<Rightarrow> User list \<Rightarrow>
    (error + UserResponse) \<times> User list" where
  "get_user e user_id t =
     (case query_first e 0 user_id t of
        Inl ex \<Rightarrow> (Inl (Unhandled ex), t)
      | Inr None \<Rightarrow> (Inl (HTTPException 404 ''User not found''), t)
      | Inr (Some user) \<Rightarrow> (Inr (model_validate user), t))"

definition update_user ::
    "env \<Rightarrow> int \<Rightarrow> UserCreate \<Rightarrow> User list \<Rightarrow>
    (error + UserResponse) \<times> User list" where
  "update_user e user_id user t =
     (case query_first e 0 user_id t of
        Inl ex \<Rightarrow> (Inl (Unhandled ex), t)
      | Inr None \<Rightarrow> (Inl (HTTPException 404 ''User not found''), t)
      | Inr (Some db_user) \<Rightarrow>
          (case update_commit e 1 db_user user t of
             Inl ex \<Rightarrow> (Inl (Unhandled ex), t)
           | Inr (db_user', t') \<Rightarrow>
               (case refresh e 2 db_user' of
                  Inl ex \<Rightarrow> (Inl (Unhandled ex), t')
                | Inr db_user'' \<Rightarrow> (Inr (model_validate db_user''), t'))))"

definition delete_user :: "env \<Rightarrow> int \<Rightarrow> User list \<Rightarrow>
    (error + string) \<times> User list" where
  "delete_user e user_id t =
     (case query_first e 0 user_id t of
        Inl ex \<Rightarrow> (Inl (Unhandled ex), t)
      | Inr None \<Rightarrow> (Inl (HTTPException 404 ''User not found''), t)
      | Inr (Some db_user) \<Rightarrow>
          (case delete_commit e 1 db_user t of
             Inl ex \<Rightarrow> (Inl (Unhandled ex), t)
           | Inr t' \<Rightarrow> (Inr ''User deleted successfully'', t')))"

section \<open>Validation layer\<close>

text \<open>
  The body of a request is a JSON value; a number written with a fraction or an exponent
  is kept as its literal. The framework parses the body and validates it against
  \<open>UserCreate\<close> before it calls the handler. Pydantic validates in its default,
      lax mode:
  a field declared \<open>str\<close> takes a string and nothing else; a field declared \<open>int\<close> takes
  an integer, a boolean (as 0 or 1), and those strings and those numbers with a fraction
  that the library converts to an integer. Which ones it converts, and to what, is the
  library's matter: the two conversions are parameters of the validation. No field of
  \<open>UserBase\<close> has a default, so all three are required; the declaration constrains no
  value further. Keys the model does not declare are ignored, and of two equal keys the
  later one counts.
\<close>

datatype json =
    JNull
  | JBool bool
  | JInt int
  | JFloat string
  | JStr string
  | JArr "json list"
  | JObj "(string \<times> json) list"

record lax =
  str_as_int :: "string \<Rightarrow> int option"
  float_as_int :: "string \<Rightarrow> int option"

fun validate_str :: "json \<Rightarrow> string option" where
  "validate_str (JStr s) = Some s"
| "validate_str _ = None"

fun validate_int :: "lax \<Rightarrow> json \<Rightarrow> int option" where
  "validate_int c (JInt i) = Some i"
| "validate_int c (JBool b) = Some (if b then 1 else 0)"
| "validate_int c (JStr s) = str_as_int c s"
| "validate_int c (JFloat f) = float_as_int c f"
| "validate_int c _ = None"

definition field :: "string \<Rightarrow>
    (string \<times> json) list \<Rightarrow> json option" where
  "field k kvs = map_of (rev kvs) k"

fun validate_UserCreate :: "lax \<Rightarrow> json \<Rightarrow> UserCreate option" where
  "validate_UserCreate c (JObj kvs) =
     (case Option.bind (field ''name'' kvs) validate_str of
        None \<Rightarrow> None
      | Some n \<Rightarrow>
     (case Option.bind (field ''email'' kvs) validate_str of
        None \<Rightarrow> None
      | Some m \<Rightarrow>
     (case Option.bind (field ''age'' kvs) (validate_int c) of
        None \<Rightarrow> None
      | Some a \<Rightarrow> Some \<lparr>name = n, email = m, age = a\<rparr>)))"
| "validate_UserCreate c _ = None"

section \<open>The HTTP surface\<close>

text \<open>
  The routes over the table \<open>users\<close>. A body is validated before the handler runs; the
  query parameters \<open>skip\<close> and \<open>limit\<close> of the listing are optional,
      with the defaults 0
  and 100 of the handler's signature.
\<close>

datatype request =
    POST_users json
  | GET_users "int option" "int option"
  | GET_user int
  | PUT_user int json
  | DELETE_user int

datatype content =
    One UserResponse
  | Many "UserResponse list"
  | Message string

definition respond :: "('a \<Rightarrow> content) \<Rightarrow>
    (error + 'a) \<times> User list \<Rightarrow> (error + content) \<times> User list" where
  "respond f r = (case r of (Inl err, t) \<Rightarrow> (Inl err, t) | (Inr x, t) \<Rightarrow> (Inr
      (f x), t))"

fun app :: "lax \<Rightarrow> env \<Rightarrow> request \<Rightarrow> User list \<Rightarrow>
    (error + content) \<times> User list" where
  "app c e (POST_users body) t =
     (case validate_UserCreate c body of
        None \<Rightarrow> (Inl RequestValidationError, t)
      | Some user \<Rightarrow> respond One (create_user e user t))"
| "app c e (GET_users skip limit) t =
     respond Many (get_users e (case skip of None \<Rightarrow> 0 | Some k \<Rightarrow> k)
                              (case limit of None \<Rightarrow> 100 | Some l \<Rightarrow> l) t)"
| "app c e (GET_user user_id) t = respond One (get_user e user_id t)"
| "app c e (PUT_user user_id body) t =
     (case validate_UserCreate c body of
        None \<Rightarrow> (Inl RequestValidationError, t)
      | Some user \<Rightarrow> respond One (update_user e user_id user t))"
| "app c e (DELETE_user user_id) t = respond Message (delete_user e user_id t)"

text \<open>A run of the service: the requests one after the other, each in its own
  environment, from a given table; it returns the log of requests with their outcomes
  and the table at the end.\<close>

fun run :: "lax \<Rightarrow> (env \<times> request) list \<Rightarrow> User list \<Rightarrow>
    (request \<times> (error + content)) list \<times> User list" where
  "run c [] t = ([], t)"
| "run c ((e, rq) # rest) t =
     (case app c e rq t of
        (out, t') \<Rightarrow> (case run c rest t' of (log, t'') \<Rightarrow> ((rq, out) # log,
            t'')))"





section \<open>Constraints of the table\<close>

text \<open>The constraints the table is declared with: \<open>email\<close> is unique,
    and \<open>id\<close> is the
  key, an integer of the store, by which the rows are ordered.\<close>

definition unique_email :: "User list \<Rightarrow> bool" where
  "unique_email t = distinct (map users_email t)"

definition key_order :: "User list \<Rightarrow> bool" where
  "key_order t = sorted_wrt (<) (map users_id t)"

definition key_range :: "User list \<Rightarrow> bool" where
  "key_range t = list_all (\<lambda>u. int64 (users_id u)) t"

definition wf :: "User list \<Rightarrow> bool" where
  "wf t = (unique_email t \<and> key_order t \<and> key_range t)"

section \<open>Schema mismatch\<close>

text \<open>
  Two readings of a payload that does not match the schema \<open>{name: string, email: string,
  age: integer}\<close>, both as predicates on the body. \<open>schema_mismatch\<close> follows the words
  of the specification: the body is no object, or a required field is missing, or its
  value is not of the JSON type named. \<open>lax_mismatch\<close> differs in the type of \<open>age\<close>
  alone: it counts as an integer whatever the validation converts to one.
\<close>

fun is_string :: "json \<Rightarrow> bool" where
  "is_string (JStr s) = True"
| "is_string _ = False"

fun is_integer :: "json \<Rightarrow> bool" where
  "is_integer (JInt i) = True"
| "is_integer _ = False"

fun taken_as_integer :: "lax \<Rightarrow> json \<Rightarrow> bool" where
  "taken_as_integer c (JInt i) = True"
| "taken_as_integer c (JBool b) = True"
| "taken_as_integer c (JStr s) = (str_as_int c s \<noteq> None)"
| "taken_as_integer c (JFloat f) = (float_as_int c f \<noteq> None)"
| "taken_as_integer c _ = False"

definition missing_or_wrong ::
    "(json \<Rightarrow> bool) \<Rightarrow> json option \<Rightarrow> bool" where
  "missing_or_wrong ty v = (case v of None \<Rightarrow> True | Some j \<Rightarrow> \<not> ty j)"

fun schema_mismatch :: "json \<Rightarrow> bool" where
  "schema_mismatch (JObj kvs) =
     (missing_or_wrong is_string (field ''name'' kvs) \<or>
      missing_or_wrong is_string (field ''email'' kvs) \<or>
      missing_or_wrong is_integer (field ''age'' kvs))"
| "schema_mismatch _ = True"

fun lax_mismatch :: "lax \<Rightarrow> json \<Rightarrow> bool" where
  "lax_mismatch c (JObj kvs) =
     (missing_or_wrong is_string (field ''name'' kvs) \<or>
      missing_or_wrong is_string (field ''email'' kvs) \<or>
      missing_or_wrong (taken_as_integer c) (field ''age'' kvs))"
| "lax_mismatch c _ = True"

section \<open>Auxiliary facts\<close>

lemma next_rowid_gt: "u \<in> set t \<Longrightarrow> users_id u < next_rowid t"
proof -
  assume u: "u \<in> set t"
  then have "users_id u \<in> set (map users_id t)" by simp
  then have "users_id u \<le> Max (set (map users_id t))" by (intro Max_ge) auto
  with u show ?thesis by (auto simp: next_rowid_def)
qed

lemma find_key_None: "find (\<lambda>u. users_id u = k) t =
    None \<longleftrightarrow> k \<notin> set (map users_id t)"
  by (induction t) auto

lemma find_key_Some: "find (\<lambda>u. users_id u = k) t =
    Some v \<Longrightarrow> v \<in> set t \<and> users_id v = k"
  by (induction t) (auto split: if_splits)



lemma new_rowid_unused: "new_rowid e t = Some k \<Longrightarrow> k \<notin> set (map users_id t)"
proof -
  assume h: "new_rowid e t = Some k"
  show ?thesis
  proof (cases "next_rowid t \<le> max_int64")
    case True
    with h have "k = next_rowid t" by (simp add: new_rowid_def)
    then show ?thesis using next_rowid_gt by fastforce
  next
    case False
    with h show ?thesis
      by (auto simp: new_rowid_def split: option.splits if_splits)
  qed
qed

lemma new_rowid_int64: "key_range t \<Longrightarrow> new_rowid e t =
    Some k \<Longrightarrow> int64 k"
proof -
  assume kr: "key_range t" and h: "new_rowid e t = Some k"
  show ?thesis
  proof (cases "next_rowid t \<le> max_int64")
    case True
    with h have k: "k = next_rowid t" by (simp add: new_rowid_def)
    show ?thesis
    proof (cases t)
      case Nil
      with k show ?thesis by (simp add: next_rowid_def int64_def max_int64_def)
    next
      case (Cons u us)
      then have "u \<in> set t" by simp
      then have "users_id u < next_rowid t" by (rule next_rowid_gt)
      moreover from kr Cons have "int64 (users_id u)" by (simp add: key_range_def)
      ultimately show ?thesis using True k by (simp add: int64_def)
    qed
  next
    case False
    with h show ?thesis
      by (auto simp: new_rowid_def int64_def split: option.splits if_splits)
  qed
qed


lemma create_user_ok:
  assumes "fails_at e = None" and "int64 (age P)"
    and "email P \<notin> set (map users_email t)" and "new_rowid e t = Some k"
  shows "create_user e P t =
    (Inr \<lparr>name = name P, email = email P, age = age P, id_of = k, created_at =
        utcnow e\<rparr>,
     insort_key users_id
       \<lparr>users_id = k, users_name = name P, users_email = email P,
        users_age = age P, users_created_at = utcnow e\<rparr> t)"
  using assms
  by (simp add: create_user_def create_user_try_def add_commit_def refresh_def
        model_validate_def Let_def)


lemma count_unique:
  "distinct (map f xs) \<Longrightarrow> x \<in> set (map f xs) \<Longrightarrow> length (filter
      (\<lambda>u. f u = x) xs) = 1"
proof (induction xs)
  case Nil
  then show ?case by simp
next
  case (Cons a xs)
  show ?case
  proof (cases "f a = x")
    case True
    with Cons.prems have "x \<notin> f ` set xs" by simp
    then have "\<forall>u\<in>set xs. f u \<noteq> x" by blast
    then have "filter (\<lambda>u. f u = x) xs = []" by (simp add: filter_empty_conv)
    with True show ?thesis by simp
  next
    case False
    with Cons show ?thesis by auto
  qed
qed

lemma create_user_duplicate:
  "email P \<in> set (map users_email t) \<Longrightarrow>
   create_user e P t = (Inl (HTTPException 400 ''Failed to create user''), t)"
  by (simp add: create_user_def create_user_try_def add_commit_def)

lemma update_user_cases:
  "update_user e uid user t = (r, t') \<Longrightarrow>
     t' = t \<or> (\<exists>db_user. find (\<lambda>u. users_id u = uid) t = Some db_user \<and>
                (r = Inr (model_validate (setattrs db_user user)) \<or>
                 r = Inl (Unhandled OperationalError)) \<and>
                t' = map (\<lambda>u. if users_id u = uid then setattrs u user else u) t)"
  by (auto simp: update_user_def query_first_def update_commit_def refresh_def
           split: if_splits option.splits dest: find_key_Some)












lemma validate_str_None: "validate_str j = None \<longleftrightarrow> \<not> is_string j"
  by (cases j) auto

lemma validate_int_None: "validate_int c j = None \<longleftrightarrow> \<not> taken_as_integer c j"
  by (cases j) auto

lemma bind_None_wrong:
  "(\<And>j. f j = None \<longleftrightarrow> \<not> ty j) \<Longrightarrow> Option.bind v f =
      None \<longleftrightarrow> missing_or_wrong ty v"
  by (cases v) (auto simp: missing_or_wrong_def)

lemma validate_None_iff: "validate_UserCreate c body =
    None \<longleftrightarrow> lax_mismatch c body"
proof (cases body)
  case (JObj kvs)
  have n: "Option.bind (field ''name'' kvs) validate_str = None \<longleftrightarrow>
           missing_or_wrong is_string (field ''name'' kvs)"
    by (rule bind_None_wrong) (rule validate_str_None)
  have m: "Option.bind (field ''email'' kvs) validate_str = None \<longleftrightarrow>
           missing_or_wrong is_string (field ''email'' kvs)"
    by (rule bind_None_wrong) (rule validate_str_None)
  have a: "Option.bind (field ''age'' kvs) (validate_int c) = None \<longleftrightarrow>
           missing_or_wrong (taken_as_integer c) (field ''age'' kvs)"
    by (rule bind_None_wrong) (rule validate_int_None)
  show ?thesis
    unfolding JObj validate_UserCreate.simps lax_mismatch.simps
    using n m a by (auto split: option.splits)
qed simp_all

lemma create_user_caught:
  "create_user_try e user t = (Inl ex, t') \<Longrightarrow>
   create_user e user t = (Inl (HTTPException 400 ''Failed to create user''), t')"
  by (simp add: create_user_def)

lemma create_user_fails:
  "fails_at e = Some 0 \<or> fails_at e = Some 1 \<Longrightarrow>
   fst (create_user e user t) = Inl (HTTPException 400 ''Failed to create user'')"
  by (auto simp: create_user_def create_user_try_def add_commit_def refresh_def Let_def
        split: option.splits)

lemma first_statement_fails:
  assumes "fails_at e = Some 0"
  shows "get_users e skip limit t =
           (Inl (Unhandled (if int64 skip \<and>
               int64 limit then OperationalError else OverflowError)), t)"
    and "get_user e uid t =
           (Inl (Unhandled (if int64 uid then OperationalError else OverflowError)), t)"
    and "update_user e uid user t =
           (Inl (Unhandled (if int64 uid then OperationalError else OverflowError)), t)"
    and "delete_user e uid t =
           (Inl (Unhandled (if int64 uid then OperationalError else OverflowError)), t)"
  using assms
  by (simp_all add: get_users_def query_all_def get_user_def query_first_def update_user_def
        delete_user_def)

lemma second_statement_fails:
  assumes "fails_at e = Some 1" and "query_first e 0 uid t = Inr (Some d)"
  shows "update_user e uid user t =
           (Inl (Unhandled (if age user \<noteq> users_age d \<and> \<not> int64 (age user)
                            then OverflowError else OperationalError)), t)"
    and "delete_user e uid t = (Inl (Unhandled OperationalError), t)"
  using assms
  by (simp_all add: update_user_def update_commit_def delete_user_def delete_commit_def)

lemma third_statement_fails:
  assumes "fails_at e = Some 2" and "query_first e 0 uid t = Inr (Some d)"
    and "update_commit e 1 d user t = Inr (d', t')"
  shows "update_user e uid user t = (Inl (Unhandled OperationalError), t')"
  using assms by (simp add: update_user_def refresh_def)

section \<open>The constraints are invariants\<close>

text \<open>Every request leaves a table that satisfies the declared constraints in a table
  that satisfies them; the empty table does. So the tables the service can reach are
  those of \<open>wf\<close>.\<close>

lemma ordered_distinct: "sorted_wrt (<) (xs :: int list) \<Longrightarrow> distinct xs"
  by (induction xs) auto

lemma ordered_filter:
  "sorted_wrt (<) (map users_id t) \<Longrightarrow> sorted_wrt (<) (map users_id (filter Q t))"
  by (induction t) auto

lemma ordered_insort:
  "sorted_wrt (<) (map users_id t) \<Longrightarrow> users_id v \<notin> set
      (map users_id t) \<Longrightarrow>
   sorted_wrt (<) (map users_id (insort_key users_id v t))"
  by (induction t) (auto simp: set_insort_key)

lemma emails_insort:
  "distinct (map users_email t) \<Longrightarrow> users_email v \<notin> set
      (map users_email t) \<Longrightarrow>
   distinct (map users_email (insort_key users_id v t))"
  by (induction t) (auto simp: set_insort_key)

lemma wf_create_user:
  assumes "wf t"
  shows "wf (snd (create_user e user t))"
proof (cases "snd (create_user e user t) = t")
  case True
  with assms show ?thesis by simp
next
  case False
  then obtain k where k: "new_rowid e t = Some k"
    and fresh: "email user \<notin> set (map users_email t)"
    and t': "snd (create_user e user t) = insort_key users_id
        \<lparr>users_id = k, users_name = name user, users_email = email user,
         users_age = age user, users_created_at = utcnow e\<rparr> t"
    by (auto simp: create_user_def create_user_try_def add_commit_def refresh_def Let_def
          split: if_splits option.splits)
  let ?r = "\<lparr>users_id = k, users_name = name user, users_email = email user,
         users_age = age user, users_created_at = utcnow e\<rparr>"
  from assms have kr: "key_range t" by (simp add: wf_def)
  have unused: "users_id ?r \<notin> set (map users_id t)" using new_rowid_unused[OF k] by simp
  have "int64 k" using kr k by (rule new_rowid_int64)
  then have "key_range (insort_key users_id ?r t)"
    using kr by (simp add: key_range_def list_all_iff set_insort_key)
  moreover have "key_order (insort_key users_id ?r t)"
    unfolding key_order_def using assms unused
    by (intro ordered_insort) (simp_all add: wf_def key_order_def)
  moreover have "unique_email (insort_key users_id ?r t)"
    unfolding unique_email_def using assms fresh
    by (intro emails_insort) (simp_all add: wf_def unique_email_def)
  ultimately show ?thesis using t' by (simp add: wf_def)
qed

lemma wf_delete_user: "wf t \<Longrightarrow> wf (snd (delete_user e uid t))"
  by (auto simp: wf_def unique_email_def key_order_def key_range_def list_all_iff
        delete_user_def query_first_def
        delete_commit_def distinct_map_filter ordered_filter
        split: option.splits)

lemma setattrs_emails:
  assumes "distinct (map users_id t)" and "distinct (map users_email t)"
    and "(\<forall>u\<in>set t. users_id u = uid \<longrightarrow> users_email u = email user) \<or>
         email user \<notin> set (map users_email t)"
  shows "distinct (map users_email (map (\<lambda>u. if users_id u =
      uid then setattrs u user else u) t))"
  using assms
proof (induction t)
  case Nil
  then show ?case by simp
next
  case (Cons a t)
  let ?f = "\<lambda>u. if users_id u = uid then setattrs u user else u"
  have IH: "distinct (map users_email (map ?f t))"
    using Cons by auto
  show ?case
  proof (cases "users_id a = uid")
    case True
    from Cons.prems(1) have "users_id a \<notin> users_id ` set t" by simp
    with True have "\<forall>u\<in>set t. users_id u \<noteq> uid" by blast
    then have same: "map ?f t = t" by (induction t) auto
    have "email user \<notin> set (map users_email t)"
    proof (cases "email user \<in> set (map users_email (a # t))")
      case False
      then show ?thesis by simp
    next
      case inside: True
      with Cons.prems(3) True have "users_email a = email user"
        by (metis list.set_intros(1))
      moreover from Cons.prems(2) have "users_email a \<notin> set (map users_email t)" by simp
      ultimately show ?thesis by simp
    qed
    with True same Cons.prems(2) show ?thesis by (simp add: setattrs_def)
  next
    case False
    have "users_email a \<notin> set (map users_email (map ?f t))"
    proof
      assume "users_email a \<in> set (map users_email (map ?f t))"
      then obtain u where u: "u \<in> set t" "users_email a = users_email (?f u)" by auto
      show False
      proof (cases "users_id u = uid")
        case True
        with u have "users_email a = email user" by (simp add: setattrs_def)
        with Cons.prems(2,3) True u(1) False show False by force
      next
        case False
        with u Cons.prems(2) show False by force
      qed
    qed
    with False IH show ?thesis by simp
  qed
qed

lemma wf_update_user: "wf t \<Longrightarrow> wf (snd (update_user e uid user t))"
proof -
  assume wf: "wf t"
  obtain r t' where eq: "update_user e uid user t = (r, t')" by (cases "update_user e uid user t")
  let ?f = "\<lambda>u. if users_id u = uid then setattrs u user else u"
  have "wf t'"
  proof (cases "t' = t")
    case True
    with wf show ?thesis by simp
  next
    case False
    then have t': "t' = map ?f t"
      using update_user_cases[OF eq] by auto
    from eq False obtain d where d: "find (\<lambda>u. users_id u = uid) t = Some d"
      and chk: "\<not> (email user \<noteq> users_email d \<and> email user \<in> set
          (map users_email t))"
      by (auto simp: update_user_def query_first_def update_commit_def refresh_def
            split: if_splits option.splits)
    have din: "d \<in> set t" "users_id d = uid" using d by (auto dest: find_key_Some)
    have dids: "distinct (map users_id t)"
      using wf by (simp add: wf_def key_order_def ordered_distinct)
    then have inj: "inj_on users_id (set t)" by (simp add: distinct_map)
    have only: "\<forall>u\<in>set t. users_id u = uid \<longrightarrow> u = d"
      using inj din by (auto dest: inj_onD)
    have cond: "(\<forall>u\<in>set t. users_id u = uid \<longrightarrow> users_email u =
        email user) \<or>
         email user \<notin> set (map users_email t)"
      using chk only by auto
    have de: "distinct (map users_email t)"
      using wf by (simp add: wf_def unique_email_def)
    have em: "distinct (map users_email t')"
      unfolding t' by (rule setattrs_emails[OF dids de cond])
    have ids: "map users_id t' = map users_id t"
      unfolding t' by (induction t) (auto simp: setattrs_def)
    have "key_range t'"
      using wf ids by (simp add: wf_def key_range_def list_all_iff)
          (metis list.set_map imageI image_iff)
    then show ?thesis
      using wf em ids by (simp add: wf_def unique_email_def key_order_def)
  qed
  with eq show ?thesis by simp
qed

lemma snd_respond: "snd (respond f r) = snd r"
  by (cases r) (auto simp: respond_def split: sum.splits)

lemma wf_app: "wf t \<Longrightarrow> wf (snd (app c e rq t))"
proof (cases rq)
  case (GET_users skip limit)
  assume "wf t"
  then show ?thesis
    using GET_users by (simp add: snd_respond get_users_def query_all_def)
next
  case (GET_user uid)
  assume "wf t"
  then show ?thesis
    using GET_user by (simp add: snd_respond get_user_def query_first_def split: option.splits)
qed (auto simp: snd_respond wf_create_user wf_update_user wf_delete_user split: option.splits)

lemma wf_run: "wf t \<Longrightarrow> wf (snd (run c rs t))"
proof (induction rs arbitrary: t)
  case Nil
  then show ?case by simp
next
  case (Cons a rs)
  obtain e rq where a: "a = (e, rq)" by (cases a)
  obtain out s where ap: "app c e rq t = (out, s)" by (cases "app c e rq t")
  obtain log s' where rn: "run c rs s = (log, s')" by (cases "run c rs s")
  from Cons.prems have "wf (snd (app c e rq t))" by (rule wf_app)
  with ap have "wf s" by simp
  then have "wf (snd (run c rs s))" by (rule Cons.IH)
  with rn have "wf s'" by simp
  with a ap rn show ?case by simp
qed

lemma wf_empty: "wf []"
  by (simp add: wf_def unique_email_def key_order_def key_range_def)

section \<open>Properties of the service\<close>




text \<open>
  C2. A creation whose email is that of a stored record fails with status 400 and leaves
  the table as it was, so the table holds exactly one record with that email.
\<close>

theorem duplicate_email_rejected:
  assumes "unique_email t" and "email P \<in> set (map users_email t)"
  shows "create_user e P t = (Inl (HTTPException 400 ''Failed to create user''), t) \<and>
         length (filter (\<lambda>u. users_email u = email P) t) = 1"
proof -
  have "create_user e P t = (Inl (HTTPException 400 ''Failed to create user''), t)"
    using assms(2) by (rule create_user_duplicate)
  moreover have "length (filter (\<lambda>u. users_email u = email P) t) = 1"
    using assms count_unique[of users_email t "email P"] by (simp add: unique_email_def)
  ultimately show ?thesis by simp
qed

text \<open>An instance.\<close>

theorem duplicate_email_rejected_witness:
  "unique_email [\<lparr>users_id = 1, users_name = ''John Doe'', users_email =
      ''john@example.com'', users_age = 25, users_created_at = 7\<rparr>] \<and>
   email \<lparr>name = ''Johnny'', email = ''john@example.com'', age = 30\<rparr> \<in> set
       (map users_email [\<lparr>users_id = 1, users_name = ''John Doe'', users_email =
       ''john@example.com'', users_age = 25, users_created_at = 7\<rparr>]) \<and>
   create_user \<lparr>utcnow = 8, fails_at = None, random_rowid = None\<rparr> \<lparr>name =
       ''Johnny'', email = ''john@example.com'', age = 30\<rparr> [\<lparr>users_id = 1,
       users_name = ''John Doe'', users_email = ''john@example.com'', users_age = 25,
       users_created_at = 7\<rparr>] = (Inl (HTTPException 400 ''Failed to create user''),
       [\<lparr>users_id = 1, users_name = ''John Doe'', users_email = ''john@example.com'',
       users_age = 25, users_created_at = 7\<rparr>]) \<and>
   length (filter (\<lambda>u. users_email u = ''john@example.com'') [\<lparr>users_id = 1,
       users_name = ''John Doe'', users_email = ''john@example.com'', users_age = 25,
       users_created_at = 7\<rparr>]) = 1"
  using duplicate_email_rejected[of "[\<lparr>users_id = 1, users_name = ''John Doe'',
      users_email = ''john@example.com'', users_age = 25, users_created_at = 7\<rparr>]"
      "\<lparr>name = ''Johnny'', email = ''john@example.com'', age = 30\<rparr>" "\<lparr>utcnow =
      8, fails_at = None, random_rowid = None\<rparr>"]
  by (simp add: unique_email_def)

text \<open>
  C3. Whatever \<open>update_user\<close> returns, the keys and the creation times of all rows are
  what they were, every row with another key is unchanged, and a record returned has the
  key asked for and the creation time of the stored row.
\<close>

theorem update_frame:
  assumes "update_user e uid user t = (r, t')"
  shows "map users_id t' = map users_id t \<and>
         map users_created_at t' = map users_created_at t \<and>
         (\<forall>i<length t. users_id (t ! i) \<noteq> uid \<longrightarrow> t' ! i =
             t ! i) \<and>
         (\<forall>v. r = Inr v \<longrightarrow> id_of v = uid \<and>
              (\<exists>u\<in>set t. users_id u = uid \<and> created_at v = users_created_at u))"
proof -
  let ?t = "map (\<lambda>u. if users_id u = uid then setattrs u user else u) t"
  have ids: "map users_id ?t = map users_id t"
    by (induction t) (auto simp: setattrs_def)
  have ts: "map users_created_at ?t = map users_created_at t"
    by (induction t) (auto simp: setattrs_def)
  have others: "\<forall>i<length t. users_id (t ! i) \<noteq> uid \<longrightarrow> ?t ! i = t ! i"
    by simp
  have resp: "\<forall>v. r = Inr v \<longrightarrow> id_of v = uid \<and>
              (\<exists>u\<in>set t. users_id u = uid \<and> created_at v = users_created_at u)"
    using assms
    by (auto simp: update_user_def query_first_def update_commit_def refresh_def
          model_validate_def setattrs_def split: if_splits option.splits dest!: find_key_Some)
  from update_user_cases[OF assms] ids ts others resp show ?thesis by auto
qed

text \<open>An instance.\<close>

theorem update_frame_witness:
  "update_user \<lparr>utcnow = 9, fails_at = None, random_rowid = None\<rparr> 1 \<lparr>name =
      ''Jane Doe'', email = ''jane@example.com'', age = 30\<rparr> [\<lparr>users_id = 1,
      users_name = ''John Doe'', users_email = ''john@example.com'', users_age = 25,
      users_created_at = 7\<rparr>, \<lparr>users_id = 2, users_name = ''Ann'', users_email =
      ''ann@example.com'', users_age = 41, users_created_at = 8\<rparr>] = (Inr \<lparr>name =
      ''Jane Doe'', email = ''jane@example.com'', age = 30, id_of = 1, created_at = 7\<rparr>,
      [\<lparr>users_id = 1, users_name = ''Jane Doe'', users_email = ''jane@example.com'',
      users_age = 30, users_created_at = 7\<rparr>, \<lparr>users_id = 2, users_name = ''Ann'',
      users_email = ''ann@example.com'', users_age = 41, users_created_at = 8\<rparr>]) \<and>
   map users_id [\<lparr>users_id = 1, users_name = ''Jane Doe'', users_email =
       ''jane@example.com'', users_age = 30, users_created_at = 7\<rparr>, \<lparr>users_id = 2,
       users_name = ''Ann'', users_email = ''ann@example.com'', users_age = 41, users_created_at =
       8\<rparr>] = [1, 2] \<and>
   map users_created_at [\<lparr>users_id = 1, users_name = ''Jane Doe'', users_email =
       ''jane@example.com'', users_age = 30, users_created_at = 7\<rparr>, \<lparr>users_id = 2,
       users_name = ''Ann'', users_email = ''ann@example.com'', users_age = 41, users_created_at =
       8\<rparr>] = [7, 8]"
proof -
  have run: "update_user \<lparr>utcnow = 9, fails_at = None, random_rowid = None\<rparr> 1
      \<lparr>name = ''Jane Doe'', email = ''jane@example.com'', age = 30\<rparr>
      [\<lparr>users_id = 1, users_name = ''John Doe'', users_email = ''john@example.com'',
      users_age = 25, users_created_at = 7\<rparr>, \<lparr>users_id = 2, users_name = ''Ann'',
      users_email = ''ann@example.com'', users_age = 41, users_created_at = 8\<rparr>] = (Inr
      \<lparr>name = ''Jane Doe'', email = ''jane@example.com'', age = 30, id_of = 1, created_at =
      7\<rparr>, [\<lparr>users_id = 1, users_name = ''Jane Doe'', users_email =
      ''jane@example.com'', users_age = 30, users_created_at = 7\<rparr>, \<lparr>users_id = 2,
      users_name = ''Ann'', users_email = ''ann@example.com'', users_age = 41, users_created_at =
      8\<rparr>])"
    by (simp add: update_user_def query_first_def update_commit_def refresh_def setattrs_def
          model_validate_def int64_def max_int64_def)
  from update_frame[OF run] run show ?thesis by simp
qed







text \<open>
  C6, as amended. A create or update payload that is no object, or lacks a required
  field, or has a \<open>name\<close> or \<open>email\<close> that is not a string,
      or an \<open>age\<close> that the validation
  does not take as an integer (it takes an integer, a boolean, and a string or a number
  with a fraction that the library converts to an integer), is answered with 422 and the
  table is unchanged: whether the store fails or not, and whether the key of an update
  exists or not, so before any access to the store. This holds whatever the conversions
  of the library are.
\<close>

theorem invalid_payload_rejected:
  assumes "lax_mismatch c body"
  shows "app c e (POST_users body) t = (Inl RequestValidationError, t) \<and>
         app c e (PUT_user uid body) t = (Inl RequestValidationError, t) \<and>
         status_code RequestValidationError = 422"
  using assms validate_None_iff[of c body] by simp

text \<open>An instance.\<close>

theorem invalid_payload_rejected_witness:
  "lax_mismatch \<lparr>str_as_int = Map.empty, float_as_int = Map.empty\<rparr>
     (JObj [(''name'', JStr ''John''), (''email'', JStr ''invalid-email'')]) \<and>
   app \<lparr>str_as_int = Map.empty, float_as_int = Map.empty\<rparr>
       \<lparr>utcnow = 7, fails_at = Some 0, random_rowid = None\<rparr>
       (POST_users (JObj [(''name'', JStr ''John''), (''email'', JStr ''invalid-email'')])) [] =
     (Inl RequestValidationError, []) \<and>
   app \<lparr>str_as_int = Map.empty, float_as_int = Map.empty\<rparr>
       \<lparr>utcnow = 7, fails_at = Some 0, random_rowid = None\<rparr>
       (PUT_user 999 (JObj [(''name'', JStr ''John''), (''email'', JStr ''invalid-email'')])) [] =
     (Inl RequestValidationError, []) \<and>
   status_code RequestValidationError = 422"
proof -
  have h: "lax_mismatch \<lparr>str_as_int = Map.empty, float_as_int = Map.empty\<rparr>
     (JObj [(''name'', JStr ''John''), (''email'', JStr ''invalid-email'')])"
    by (simp add: missing_or_wrong_def field_def)
  show ?thesis
    using h invalid_payload_rejected[OF h,
        of "\<lparr>utcnow = 7, fails_at = Some 0, random_rowid = None\<rparr>" "[]" 999]
    by blast
qed

text \<open>Where the library converts the string given as \<open>age\<close>,
    the payload mismatches the
  schema as the specification words it, and the record is created.\<close>

lemma numeric_string_age_accepted:
  assumes "str_as_int c s = Some a" and "fails_at e = None" and "int64 a"
    and "m \<notin> set (map users_email t)" and "new_rowid e t = Some k"
  shows "schema_mismatch (JObj [(''name'', JStr n), (''email'', JStr m), (''age'', JStr s)]) \<and>
         app c e (POST_users (JObj [(''name'', JStr n), (''email'', JStr m), (''age'',
             JStr s)])) t =
           (Inr (One \<lparr>name = n, email = m, age = a, id_of = k, created_at =
               utcnow e\<rparr>),
            insort_key users_id
              \<lparr>users_id = k, users_name = n, users_email = m, users_age = a,
               users_created_at = utcnow e\<rparr> t)"
  using assms
  by (simp add: missing_or_wrong_def field_def respond_def
        create_user_ok[of e "\<lparr>name = n, email = m, age = a\<rparr>" t k])

text \<open>The string \<open>"25"\<close> is converted to 25: a payload whose \<open>age\<close> is that string
  is of the wrong type, and yet the record is created, with the age 25.\<close>

theorem numeric_string_age_counterexample:
  "schema_mismatch (JObj [(''name'', JStr ''John''), (''email'', JStr ''john@example.com''),
      (''age'', JStr ''25'')]) \<and>
   app \<lparr>str_as_int = [''25'' \<mapsto> 25], float_as_int = Map.empty\<rparr>
       \<lparr>utcnow = 7, fails_at = None, random_rowid = None\<rparr>
       (POST_users (JObj [(''name'', JStr ''John''), (''email'', JStr ''john@example.com''),
           (''age'', JStr ''25'')])) [] =
     (Inr (One \<lparr>name = ''John'', email = ''john@example.com'', age = 25, id_of = 1,
         created_at = 7\<rparr>),
      [\<lparr>users_id = 1, users_name = ''John'', users_email = ''john@example.com'', users_age =
          25, users_created_at = 7\<rparr>])"
  by (simp add: missing_or_wrong_def field_def respond_def create_user_def create_user_try_def
        add_commit_def refresh_def new_rowid_def next_rowid_def model_validate_def Let_def
        int64_def max_int64_def)

text \<open>
  C7, as amended. When the store fails during a request, at whichever of its statements:
  \<open>create_user\<close> answers 400 with the detail \<open>Failed to create user\<close>,
      as it does for
  whatever else its \<open>try\<close> block raises and for a duplicate email; the four other
  handlers do not catch the exception, which the framework answers with 500 and the text
  \<open>Internal Server Error\<close>.
      (A failure of the \<open>refresh\<close> of an update is answered so
  with the row written.)
\<close>

theorem store_failure_status:
  "(create_user_try e user t = (Inl ex, t') \<longrightarrow>
      create_user e user t = (Inl (HTTPException 400 ''Failed to create user''), t')) \<and>
   (fails_at e = Some 0 \<or> fails_at e = Some 1 \<longrightarrow>
      fst (create_user e user t) = Inl (HTTPException 400 ''Failed to create user'')) \<and>
   (fails_at e = Some 0 \<longrightarrow>
      get_users e skip limit t =
        (Inl (Unhandled (if int64 skip \<and>
            int64 limit then OperationalError else OverflowError)), t) \<and>
      get_user e uid t =
        (Inl (Unhandled (if int64 uid then OperationalError else OverflowError)), t) \<and>
      update_user e uid user t =
        (Inl (Unhandled (if int64 uid then OperationalError else OverflowError)), t) \<and>
      delete_user e uid t =
        (Inl (Unhandled (if int64 uid then OperationalError else OverflowError)), t)) \<and>
   (fails_at e = Some 1 \<and> query_first e 0 uid t = Inr (Some d) \<longrightarrow>
      update_user e uid user t =
        (Inl (Unhandled (if age user \<noteq> users_age d \<and> \<not> int64 (age user)
                         then OverflowError else OperationalError)), t) \<and>
      delete_user e uid t = (Inl (Unhandled OperationalError), t)) \<and>
   (fails_at e = Some 2 \<and> query_first e 0 uid t = Inr (Some d) \<and>
    update_commit e 1 d user t = Inr (d', t') \<longrightarrow>
      update_user e uid user t = (Inl (Unhandled OperationalError), t')) \<and>
   status_code (Unhandled ex) = 500 \<and>
   detail (Unhandled ex) = Some ''Internal Server Error'' \<and>
   (email user \<in> set (map users_email t) \<longrightarrow>
      create_user e user t = (Inl (HTTPException 400 ''Failed to create user''), t))"
proof (intro conjI impI)
  assume "create_user_try e user t = (Inl ex, t')"
  then show "create_user e user t = (Inl (HTTPException 400 ''Failed to create user''), t')"
    by (rule create_user_caught)
next
  assume "fails_at e = Some 0 \<or> fails_at e = Some 1"
  then show "fst (create_user e user t) = Inl (HTTPException 400 ''Failed to create user'')"
    by (rule create_user_fails)
next
  assume h: "fails_at e = Some 0"
  show "get_users e skip limit t =
        (Inl (Unhandled (if int64 skip \<and>
            int64 limit then OperationalError else OverflowError)), t)"
    by (rule first_statement_fails(1)[OF h])
  show "get_user e uid t =
        (Inl (Unhandled (if int64 uid then OperationalError else OverflowError)), t)"
    by (rule first_statement_fails(2)[OF h])
  show "update_user e uid user t =
        (Inl (Unhandled (if int64 uid then OperationalError else OverflowError)), t)"
    by (rule first_statement_fails(3)[OF h])
  show "delete_user e uid t =
        (Inl (Unhandled (if int64 uid then OperationalError else OverflowError)), t)"
    by (rule first_statement_fails(4)[OF h])
next
  assume h: "fails_at e = Some 1 \<and> query_first e 0 uid t = Inr (Some d)"
  then show "update_user e uid user t =
        (Inl (Unhandled (if age user \<noteq> users_age d \<and> \<not> int64 (age user)
                         then OverflowError else OperationalError)), t)"
    by (simp add: second_statement_fails(1))
  from h show "delete_user e uid t = (Inl (Unhandled OperationalError), t)"
    by (simp add: second_statement_fails(2))
next
  assume "fails_at e = Some 2 \<and> query_first e 0 uid t = Inr (Some d) \<and>
    update_commit e 1 d user t = Inr (d', t')"
  then show "update_user e uid user t = (Inl (Unhandled OperationalError), t')"
    by (simp add: third_statement_fails)
next
  assume "email user \<in> set (map users_email t)"
  then show "create_user e user t = (Inl (HTTPException 400 ''Failed to create user''), t)"
    by (rule create_user_duplicate)
qed simp_all

text \<open>An instance.\<close>

theorem store_failure_status_witness:
  "create_user_try \<lparr>utcnow = 9, fails_at = Some 0, random_rowid = None\<rparr>
      \<lparr>name = ''Ann'', email = ''ann@example.com'', age = 41\<rparr> [\<lparr>users_id = 1,
      users_name = ''John Doe'', users_email = ''john@example.com'', users_age = 25,
      users_created_at = 7\<rparr>, \<lparr>users_id = 2, users_name = ''Jane Doe'', users_email =
      ''jane@example.com'', users_age = 30, users_created_at = 8\<rparr>] = (Inl OperationalError,
      [\<lparr>users_id = 1, users_name = ''John Doe'', users_email = ''john@example.com'',
      users_age = 25, users_created_at = 7\<rparr>, \<lparr>users_id = 2, users_name =
      ''Jane Doe'', users_email = ''jane@example.com'', users_age = 30, users_created_at =
      8\<rparr>]) \<and>
   create_user \<lparr>utcnow = 9, fails_at = Some 0, random_rowid = None\<rparr> \<lparr>name =
       ''Ann'', email = ''ann@example.com'', age = 41\<rparr> [\<lparr>users_id = 1, users_name =
       ''John Doe'', users_email = ''john@example.com'', users_age = 25, users_created_at =
       7\<rparr>, \<lparr>users_id = 2, users_name = ''Jane Doe'', users_email =
       ''jane@example.com'', users_age = 30, users_created_at = 8\<rparr>] = (Inl
       (HTTPException 400 ''Failed to create user''), [\<lparr>users_id = 1, users_name =
       ''John Doe'', users_email = ''john@example.com'', users_age = 25, users_created_at =
       7\<rparr>, \<lparr>users_id = 2, users_name = ''Jane Doe'', users_email =
       ''jane@example.com'', users_age = 30, users_created_at = 8\<rparr>]) \<and>
   fails_at \<lparr>utcnow = 9, fails_at = Some 1, random_rowid = None\<rparr> = Some 1 \<and>
   fst (create_user \<lparr>utcnow = 9, fails_at = Some 1, random_rowid = None\<rparr>
       \<lparr>name = ''Ann'', email = ''ann@example.com'', age = 41\<rparr> [\<lparr>users_id = 1,
       users_name = ''John Doe'', users_email = ''john@example.com'', users_age = 25,
       users_created_at = 7\<rparr>, \<lparr>users_id = 2, users_name = ''Jane Doe'', users_email =
       ''jane@example.com'', users_age = 30, users_created_at = 8\<rparr>]) = Inl
       (HTTPException 400 ''Failed to create user'') \<and>
   fails_at \<lparr>utcnow = 9, fails_at = Some 0, random_rowid = None\<rparr> = Some 0 \<and>
   get_users \<lparr>utcnow = 9, fails_at = Some 0, random_rowid = None\<rparr> 0 100
       [\<lparr>users_id = 1, users_name = ''John Doe'', users_email = ''john@example.com'',
       users_age = 25, users_created_at = 7\<rparr>, \<lparr>users_id = 2, users_name =
       ''Jane Doe'', users_email = ''jane@example.com'', users_age = 30, users_created_at =
       8\<rparr>] = (Inl (Unhandled OperationalError), [\<lparr>users_id = 1, users_name =
       ''John Doe'', users_email = ''john@example.com'', users_age = 25, users_created_at =
       7\<rparr>, \<lparr>users_id = 2, users_name = ''Jane Doe'', users_email =
       ''jane@example.com'', users_age = 30, users_created_at = 8\<rparr>]) \<and>
   get_user \<lparr>utcnow = 9, fails_at = Some 0, random_rowid = None\<rparr> 1
       [\<lparr>users_id = 1, users_name = ''John Doe'', users_email = ''john@example.com'',
       users_age = 25, users_created_at = 7\<rparr>, \<lparr>users_id = 2, users_name =
       ''Jane Doe'', users_email = ''jane@example.com'', users_age = 30, users_created_at =
       8\<rparr>] = (Inl (Unhandled OperationalError), [\<lparr>users_id = 1, users_name =
       ''John Doe'', users_email = ''john@example.com'', users_age = 25, users_created_at =
       7\<rparr>, \<lparr>users_id = 2, users_name = ''Jane Doe'', users_email =
       ''jane@example.com'', users_age = 30, users_created_at = 8\<rparr>]) \<and>
   update_user \<lparr>utcnow = 9, fails_at = Some 0, random_rowid = None\<rparr> 1 \<lparr>name =
       ''Ann'', email = ''ann@example.com'', age = 41\<rparr> [\<lparr>users_id = 1, users_name =
       ''John Doe'', users_email = ''john@example.com'', users_age = 25, users_created_at =
       7\<rparr>, \<lparr>users_id = 2, users_name = ''Jane Doe'', users_email =
       ''jane@example.com'', users_age = 30, users_created_at = 8\<rparr>] = (Inl
       (Unhandled OperationalError), [\<lparr>users_id = 1, users_name = ''John Doe'',
       users_email = ''john@example.com'', users_age = 25, users_created_at = 7\<rparr>,
       \<lparr>users_id = 2, users_name = ''Jane Doe'', users_email = ''jane@example.com'',
       users_age = 30, users_created_at = 8\<rparr>]) \<and>
   delete_user \<lparr>utcnow = 9, fails_at = Some 0, random_rowid = None\<rparr> 1
       [\<lparr>users_id = 1, users_name = ''John Doe'', users_email = ''john@example.com'',
       users_age = 25, users_created_at = 7\<rparr>, \<lparr>users_id = 2, users_name =
       ''Jane Doe'', users_email = ''jane@example.com'', users_age = 30, users_created_at =
       8\<rparr>] = (Inl (Unhandled OperationalError), [\<lparr>users_id = 1, users_name =
       ''John Doe'', users_email = ''john@example.com'', users_age = 25, users_created_at =
       7\<rparr>, \<lparr>users_id = 2, users_name = ''Jane Doe'', users_email =
       ''jane@example.com'', users_age = 30, users_created_at = 8\<rparr>]) \<and>
   query_first \<lparr>utcnow = 9, fails_at = Some 1, random_rowid = None\<rparr> 0 1
       [\<lparr>users_id = 1, users_name = ''John Doe'', users_email = ''john@example.com'',
       users_age = 25, users_created_at = 7\<rparr>, \<lparr>users_id = 2, users_name =
       ''Jane Doe'', users_email = ''jane@example.com'', users_age = 30, users_created_at =
       8\<rparr>] = Inr (Some \<lparr>users_id = 1, users_name = ''John Doe'', users_email =
       ''john@example.com'', users_age = 25, users_created_at = 7\<rparr>) \<and>
   update_user \<lparr>utcnow = 9, fails_at = Some 1, random_rowid = None\<rparr> 1 \<lparr>name =
       ''Ann'', email = ''ann@example.com'', age = 41\<rparr> [\<lparr>users_id = 1, users_name =
       ''John Doe'', users_email = ''john@example.com'', users_age = 25, users_created_at =
       7\<rparr>, \<lparr>users_id = 2, users_name = ''Jane Doe'', users_email =
       ''jane@example.com'', users_age = 30, users_created_at = 8\<rparr>] = (Inl
       (Unhandled OperationalError), [\<lparr>users_id = 1, users_name = ''John Doe'',
       users_email = ''john@example.com'', users_age = 25, users_created_at = 7\<rparr>,
       \<lparr>users_id = 2, users_name = ''Jane Doe'', users_email = ''jane@example.com'',
       users_age = 30, users_created_at = 8\<rparr>]) \<and>
   delete_user \<lparr>utcnow = 9, fails_at = Some 1, random_rowid = None\<rparr> 1
       [\<lparr>users_id = 1, users_name = ''John Doe'', users_email = ''john@example.com'',
       users_age = 25, users_created_at = 7\<rparr>, \<lparr>users_id = 2, users_name =
       ''Jane Doe'', users_email = ''jane@example.com'', users_age = 30, users_created_at =
       8\<rparr>] = (Inl (Unhandled OperationalError), [\<lparr>users_id = 1, users_name =
       ''John Doe'', users_email = ''john@example.com'', users_age = 25, users_created_at =
       7\<rparr>, \<lparr>users_id = 2, users_name = ''Jane Doe'', users_email =
       ''jane@example.com'', users_age = 30, users_created_at = 8\<rparr>]) \<and>
   fails_at \<lparr>utcnow = 9, fails_at = Some 2, random_rowid = None\<rparr> = Some 2 \<and>
   query_first \<lparr>utcnow = 9, fails_at = Some 2, random_rowid = None\<rparr> 0 1
       [\<lparr>users_id = 1, users_name = ''John Doe'', users_email = ''john@example.com'',
       users_age = 25, users_created_at = 7\<rparr>, \<lparr>users_id = 2, users_name =
       ''Jane Doe'', users_email = ''jane@example.com'', users_age = 30, users_created_at =
       8\<rparr>] = Inr (Some \<lparr>users_id = 1, users_name = ''John Doe'', users_email =
       ''john@example.com'', users_age = 25, users_created_at = 7\<rparr>) \<and>
   update_commit \<lparr>utcnow = 9, fails_at = Some 2, random_rowid = None\<rparr> 1
       \<lparr>users_id = 1, users_name = ''John Doe'', users_email = ''john@example.com'',
       users_age = 25, users_created_at = 7\<rparr> \<lparr>name = ''Ann'', email =
       ''ann@example.com'', age = 41\<rparr> [\<lparr>users_id = 1, users_name = ''John Doe'',
       users_email = ''john@example.com'', users_age = 25, users_created_at = 7\<rparr>,
       \<lparr>users_id = 2, users_name = ''Jane Doe'', users_email = ''jane@example.com'',
       users_age = 30, users_created_at = 8\<rparr>] = Inr (\<lparr>users_id = 1, users_name =
       ''Ann'', users_email = ''ann@example.com'', users_age = 41, users_created_at = 7\<rparr>,
       [\<lparr>users_id = 1, users_name = ''Ann'', users_email = ''ann@example.com'', users_age =
       41, users_created_at = 7\<rparr>, \<lparr>users_id = 2, users_name = ''Jane Doe'',
       users_email = ''jane@example.com'', users_age = 30, users_created_at = 8\<rparr>]) \<and>
   update_user \<lparr>utcnow = 9, fails_at = Some 2, random_rowid = None\<rparr> 1 \<lparr>name =
       ''Ann'', email = ''ann@example.com'', age = 41\<rparr> [\<lparr>users_id = 1, users_name =
       ''John Doe'', users_email = ''john@example.com'', users_age = 25, users_created_at =
       7\<rparr>, \<lparr>users_id = 2, users_name = ''Jane Doe'', users_email =
       ''jane@example.com'', users_age = 30, users_created_at = 8\<rparr>] = (Inl
       (Unhandled OperationalError), [\<lparr>users_id = 1, users_name = ''Ann'', users_email =
       ''ann@example.com'', users_age = 41, users_created_at = 7\<rparr>, \<lparr>users_id = 2,
       users_name = ''Jane Doe'', users_email = ''jane@example.com'', users_age = 30,
       users_created_at = 8\<rparr>]) \<and>
   status_code (Unhandled OperationalError) = 500 \<and>
   email \<lparr>name = ''Jane Doe'', email = ''jane@example.com'', age = 30\<rparr> \<in> set
       (map users_email [\<lparr>users_id = 1, users_name = ''John Doe'', users_email =
       ''john@example.com'', users_age = 25, users_created_at = 7\<rparr>, \<lparr>users_id = 2,
       users_name = ''Jane Doe'', users_email = ''jane@example.com'', users_age = 30,
       users_created_at = 8\<rparr>]) \<and>
   create_user \<lparr>utcnow = 9, fails_at = None, random_rowid = None\<rparr> \<lparr>name =
       ''Jane Doe'', email = ''jane@example.com'', age = 30\<rparr> [\<lparr>users_id = 1,
       users_name = ''John Doe'', users_email = ''john@example.com'', users_age = 25,
       users_created_at = 7\<rparr>, \<lparr>users_id = 2, users_name = ''Jane Doe'', users_email =
       ''jane@example.com'', users_age = 30, users_created_at = 8\<rparr>] = (Inl
       (HTTPException 400 ''Failed to create user''), [\<lparr>users_id = 1, users_name =
       ''John Doe'', users_email = ''john@example.com'', users_age = 25, users_created_at =
       7\<rparr>, \<lparr>users_id = 2, users_name = ''Jane Doe'', users_email =
       ''jane@example.com'', users_age = 30, users_created_at = 8\<rparr>])"
proof -
  let ?t = "[\<lparr>users_id = 1, users_name = ''John Doe'', users_email = ''john@example.com'',
      users_age = 25, users_created_at = 7\<rparr>, \<lparr>users_id = 2, users_name =
      ''Jane Doe'', users_email = ''jane@example.com'', users_age = 30, users_created_at =
      8\<rparr>]"
  have a1: "create_user_try \<lparr>utcnow = 9, fails_at = Some 0, random_rowid = None\<rparr>
      \<lparr>name = ''Ann'', email = ''ann@example.com'', age = 41\<rparr> ?t =
      (Inl OperationalError, ?t)"
    by (simp add: create_user_try_def add_commit_def int64_def max_int64_def)
  have a2: "fails_at \<lparr>utcnow = 9, fails_at = Some 0, random_rowid = None\<rparr> =
      Some 0" by simp
  have b1: "fails_at \<lparr>utcnow = 9, fails_at = Some 1, random_rowid = None\<rparr> =
      Some 1" by simp
  have b2: "query_first \<lparr>utcnow = 9, fails_at = Some 1, random_rowid = None\<rparr> 0 1 ?t =
      Inr (Some \<lparr>users_id = 1, users_name = ''John Doe'', users_email =
      ''john@example.com'', users_age = 25, users_created_at = 7\<rparr>)"
    by (simp add: query_first_def int64_def max_int64_def)
  have c1: "fails_at \<lparr>utcnow = 9, fails_at = Some 2, random_rowid = None\<rparr> =
      Some 2" by simp
  have c2: "query_first \<lparr>utcnow = 9, fails_at = Some 2, random_rowid = None\<rparr> 0 1 ?t =
      Inr (Some \<lparr>users_id = 1, users_name = ''John Doe'', users_email =
      ''john@example.com'', users_age = 25, users_created_at = 7\<rparr>)"
    by (simp add: query_first_def int64_def max_int64_def)
  have c3: "update_commit \<lparr>utcnow = 9, fails_at = Some 2, random_rowid = None\<rparr> 1
      \<lparr>users_id = 1, users_name = ''John Doe'', users_email = ''john@example.com'',
      users_age = 25, users_created_at = 7\<rparr> \<lparr>name = ''Ann'', email =
      ''ann@example.com'', age = 41\<rparr> ?t = Inr (\<lparr>users_id = 1, users_name = ''Ann'',
      users_email = ''ann@example.com'', users_age = 41, users_created_at = 7\<rparr>,
      [\<lparr>users_id = 1, users_name = ''Ann'', users_email = ''ann@example.com'', users_age =
      41, users_created_at = 7\<rparr>, \<lparr>users_id = 2, users_name = ''Jane Doe'',
      users_email = ''jane@example.com'', users_age = 30, users_created_at = 8\<rparr>])"
    by (simp add: update_commit_def setattrs_def int64_def max_int64_def)
  have d1: "email \<lparr>name = ''Jane Doe'', email = ''jane@example.com'', age =
      30\<rparr> \<in> set (map users_email ?t)" by simp
  have i64: "int64 0" "int64 100" "int64 1" "int64 41"
    by (simp_all add: int64_def max_int64_def)
  note A = store_failure_status[of "\<lparr>utcnow = 9, fails_at = Some 0, random_rowid =
      None\<rparr>" "\<lparr>name = ''Ann'', email = ''ann@example.com'', age =
      41\<rparr>" ?t OperationalError ?t 0 100 1
      "\<lparr>users_id = 1, users_name = ''John Doe'', users_email = ''john@example.com'',
          users_age = 25, users_created_at = 7\<rparr>" "\<lparr>users_id = 1, users_name =
          ''Ann'', users_email = ''ann@example.com'', users_age = 41, users_created_at = 7\<rparr>"]
  note B = store_failure_status[of "\<lparr>utcnow = 9, fails_at = Some 1, random_rowid =
      None\<rparr>" "\<lparr>name = ''Ann'', email = ''ann@example.com'', age =
      41\<rparr>" ?t OperationalError ?t 0 100 1
      "\<lparr>users_id = 1, users_name = ''John Doe'', users_email = ''john@example.com'',
          users_age = 25, users_created_at = 7\<rparr>" "\<lparr>users_id = 1, users_name =
          ''Ann'', users_email = ''ann@example.com'', users_age = 41, users_created_at = 7\<rparr>"]
  note C = store_failure_status[of "\<lparr>utcnow = 9, fails_at = Some 2, random_rowid =
      None\<rparr>" "\<lparr>name = ''Ann'', email = ''ann@example.com'', age =
      41\<rparr>" ?t OperationalError "[\<lparr>users_id = 1, users_name = ''Ann'', users_email =
      ''ann@example.com'', users_age = 41, users_created_at = 7\<rparr>, \<lparr>users_id = 2,
      users_name = ''Jane Doe'', users_email = ''jane@example.com'', users_age = 30,
      users_created_at = 8\<rparr>]" 0 100 1
      "\<lparr>users_id = 1, users_name = ''John Doe'', users_email = ''john@example.com'',
          users_age = 25, users_created_at = 7\<rparr>" "\<lparr>users_id = 1, users_name =
          ''Ann'', users_email = ''ann@example.com'', users_age = 41, users_created_at = 7\<rparr>"]
  note D = store_failure_status[of "\<lparr>utcnow = 9, fails_at = None, random_rowid =
      None\<rparr>" "\<lparr>name = ''Jane Doe'', email = ''jane@example.com'', age =
      30\<rparr>" ?t OperationalError ?t 0 100 1
      "\<lparr>users_id = 1, users_name = ''John Doe'', users_email = ''john@example.com'',
          users_age = 25, users_created_at = 7\<rparr>" "\<lparr>users_id = 1, users_name =
          ''Ann'', users_email = ''ann@example.com'', users_age = 41, users_created_at = 7\<rparr>"]
  from A a1 a2 i64 have ra:
    "create_user \<lparr>utcnow = 9, fails_at = Some 0, random_rowid = None\<rparr> \<lparr>name =
        ''Ann'', email = ''ann@example.com'', age = 41\<rparr> ?t = (Inl
        (HTTPException 400 ''Failed to create user''), ?t)"
    "get_users \<lparr>utcnow = 9, fails_at = Some 0, random_rowid = None\<rparr> 0 100 ?t = (Inl
        (Unhandled OperationalError), ?t)"
    "get_user \<lparr>utcnow = 9, fails_at = Some 0, random_rowid = None\<rparr> 1 ?t = (Inl
        (Unhandled OperationalError), ?t)"
    "update_user \<lparr>utcnow = 9, fails_at = Some 0, random_rowid = None\<rparr> 1
        \<lparr>name = ''Ann'', email = ''ann@example.com'', age = 41\<rparr> ?t = (Inl
        (Unhandled OperationalError), ?t)"
    "delete_user \<lparr>utcnow = 9, fails_at = Some 0, random_rowid = None\<rparr> 1 ?t = (Inl
        (Unhandled OperationalError), ?t)"
    "status_code (Unhandled OperationalError) = 500"
    by simp_all
  from B b1 b2 i64 have rb:
    "fst (create_user \<lparr>utcnow = 9, fails_at = Some 1, random_rowid = None\<rparr>
        \<lparr>name = ''Ann'', email = ''ann@example.com'', age = 41\<rparr> ?t) = Inl
        (HTTPException 400 ''Failed to create user'')"
    "update_user \<lparr>utcnow = 9, fails_at = Some 1, random_rowid = None\<rparr> 1
        \<lparr>name = ''Ann'', email = ''ann@example.com'', age = 41\<rparr> ?t = (Inl
        (Unhandled OperationalError), ?t)"
    "delete_user \<lparr>utcnow = 9, fails_at = Some 1, random_rowid = None\<rparr> 1 ?t = (Inl
        (Unhandled OperationalError), ?t)"
    by simp_all
  from C c1 c2 c3 have rc:
    "update_user \<lparr>utcnow = 9, fails_at = Some 2, random_rowid = None\<rparr> 1
        \<lparr>name = ''Ann'', email = ''ann@example.com'', age = 41\<rparr> ?t = (Inl
        (Unhandled OperationalError), [\<lparr>users_id = 1, users_name = ''Ann'', users_email =
        ''ann@example.com'', users_age = 41, users_created_at = 7\<rparr>, \<lparr>users_id = 2,
        users_name = ''Jane Doe'', users_email = ''jane@example.com'', users_age = 30,
        users_created_at = 8\<rparr>])"
    by blast
  from D d1 have rd: "create_user \<lparr>utcnow = 9, fails_at = None, random_rowid = None\<rparr>
      \<lparr>name = ''Jane Doe'', email = ''jane@example.com'', age = 30\<rparr> ?t = (Inl
      (HTTPException 400 ''Failed to create user''), ?t)" by blast
  from a1 a2 b1 b2 c1 c2 c3 d1 ra rb rc rd show ?thesis by blast
qed

text \<open>A creation during which the store fails is answered with 400, not 500.\<close>

theorem create_store_failure_counterexample:
  "create_user \<lparr>utcnow = 7, fails_at = Some 0, random_rowid = None\<rparr>
     \<lparr>name = ''John Doe'', email = ''john@example.com'', age = 25\<rparr> [] =
     (Inl (HTTPException 400 ''Failed to create user''), []) \<and>
   status_code (HTTPException 400 ''Failed to create user'') \<noteq> 500"
  by (simp add: create_user_def create_user_try_def add_commit_def int64_def max_int64_def)




text \<open>
  C9. In a table with unique emails that holds a row with the key \<open>uid\<close> and another row
  whose email is that of the payload,
      \<open>update_user\<close> on \<open>uid\<close> does not answer with an
  \<open>HTTPException\<close>: an exception of the store leaves the handler unhandled (status 500)
  and the table is unchanged. The exception is the \<open>IntegrityError\<close> of the unique
  constraint whenever the key and the age are integers the store can hold.
\<close>

theorem update_duplicate_email_unhandled:
  assumes "unique_email t" and "fails_at e = None"
    and "x \<in> set t" and "users_id x = uid"
    and "y \<in> set t" and "users_id y \<noteq> uid" and "users_email y = email user"
  shows "\<exists>ex. update_user e uid user t = (Inl (Unhandled ex), t) \<and>
           status_code (Unhandled ex) = 500 \<and>
           (int64 uid \<and> int64 (age user) \<longrightarrow> ex = IntegrityError)"
proof (cases "int64 uid")
  case False
  then have "update_user e uid user t = (Inl (Unhandled OverflowError), t)"
    by (simp add: update_user_def query_first_def)
  with False show ?thesis by simp
next
  case True
  from assms(3,4) have "find (\<lambda>u. users_id u = uid) t \<noteq> None"
    by (auto simp: find_key_None)
  then obtain d where d: "find (\<lambda>u. users_id u = uid) t = Some d" by blast
  then have din: "d \<in> set t" and did: "users_id d = uid" by (auto dest: find_key_Some)
  with assms(6) have "d \<noteq> y" by auto
  moreover have "inj_on users_email (set t)"
    using assms(1) by (simp add: unique_email_def distinct_map)
  ultimately have "users_email d \<noteq> users_email y"
    using din assms(5) by (auto dest: inj_onD)
  with assms(7) have ne: "email user \<noteq> users_email d" by simp
  have dup: "email user \<in> set (map users_email t)" using assms(5,7) by force
  show ?thesis
  proof (cases "age user \<noteq> users_age d \<and> \<not> int64 (age user)")
    case over: True
    with d True assms(2) have "update_user e uid user t = (Inl (Unhandled OverflowError), t)"
      by (simp add: update_user_def query_first_def update_commit_def)
    with over show ?thesis by simp
  next
    case False
    with d True ne dup assms(2) have "update_user e uid user t = (Inl (Unhandled IntegrityError),
        t)"
      by (simp add: update_user_def query_first_def update_commit_def)
    then show ?thesis by simp
  qed
qed

text \<open>An instance.\<close>

theorem update_duplicate_email_unhandled_witness:
  "unique_email [\<lparr>users_id = 1, users_name = ''John Doe'', users_email =
      ''john@example.com'', users_age = 25, users_created_at = 7\<rparr>, \<lparr>users_id = 2,
      users_name = ''Jane Doe'', users_email = ''jane@example.com'', users_age = 30,
      users_created_at = 8\<rparr>] \<and> int64 1 \<and> int64 25 \<and>
   update_user \<lparr>utcnow = 9, fails_at = None, random_rowid = None\<rparr> 1 \<lparr>name =
       ''John Doe'', email = ''jane@example.com'', age = 25\<rparr> [\<lparr>users_id = 1,
       users_name = ''John Doe'', users_email = ''john@example.com'', users_age = 25,
       users_created_at = 7\<rparr>, \<lparr>users_id = 2, users_name = ''Jane Doe'', users_email =
       ''jane@example.com'', users_age = 30, users_created_at = 8\<rparr>] = (Inl
       (Unhandled IntegrityError), [\<lparr>users_id = 1, users_name = ''John Doe'', users_email =
       ''john@example.com'', users_age = 25, users_created_at = 7\<rparr>, \<lparr>users_id = 2,
       users_name = ''Jane Doe'', users_email = ''jane@example.com'', users_age = 30,
       users_created_at = 8\<rparr>]) \<and>
   status_code (Unhandled IntegrityError) = 500"
proof -
  let ?x = "\<lparr>users_id = 1, users_name = ''John Doe'', users_email = ''john@example.com'',
      users_age = 25, users_created_at = 7\<rparr>"
  let ?y = "\<lparr>users_id = 2, users_name = ''Jane Doe'', users_email = ''jane@example.com'',
      users_age = 30, users_created_at = 8\<rparr>"
  let ?user = "\<lparr>name = ''John Doe'', email = ''jane@example.com'', age = 25\<rparr>"
  have u: "unique_email [?x, ?y]" by (simp add: unique_email_def)
  have up: "fails_at \<lparr>utcnow = 9, fails_at = None, random_rowid = None\<rparr> =
      None" by simp
  have x: "?x \<in> set [?x, ?y]" "users_id ?x = 1" by simp_all
  have y: "?y \<in> set [?x, ?y]" "users_id ?y \<noteq> 1" "users_email ?y =
      email ?user" by simp_all
  have r: "int64 1" "int64 25" by (simp_all add: int64_def max_int64_def)
  from update_duplicate_email_unhandled[OF u up x y] obtain ex where
    "update_user \<lparr>utcnow = 9, fails_at = None, random_rowid = None\<rparr> 1 ?user [?x,
        ?y] = (Inl (Unhandled ex), [?x, ?y])"
    "int64 1 \<and> int64 (age ?user) \<longrightarrow> ex = IntegrityError"
    by blast
  with r u show ?thesis by simp
qed

text \<open>
  C10. \<open>get_user\<close> and \<open>get_users\<close> return the table they were given,
      whatever they
  answer.
\<close>

theorem reads_leave_store:
  "snd (get_user e uid t) = t \<and> snd (get_users e skip limit t) = t"
  by (simp add: get_user_def get_users_def query_first_def query_all_def split: option.splits)

end
